theory Spec2Isabelle
  imports
    Main
    "HOL-Library.Char_ord"
    "HOL-Library.List_Lexorder"
    "HOL-Library.Multiset"
begin

section \<open>The directory title lister of \<^verbatim>\<open>examples/title.py\<close>\<close>

text \<open>
  The script lists the current directory, keeps the entries that are directories, sorts
  them, and prints one Markdown heading per directory:
  \<^verbatim>\<open>
  p = Path('.')
  dirs = [x for x in p.iterdir() if x.is_dir()]
  dirs.sort()

  for dir in dirs:
      folder_name = " ".join([name.title() for name in str(dir).split("-")])
      print(f"## [{folder_name}](/examples/{str(dir)})\n\n")
  \<close>
  Strings are modelled as lists of \<^typ>\<open>char\<close>, read as ASCII code points: the case
  mapping below is the ASCII part of the interpreter's tables, and a character outside
  \<open>A\<close>--\<open>Z\<close> and \<open>a\<close>--\<open>z\<close> is uncased and left as it is.
\<close>

subsection \<open>Characters\<close>

definition code_point :: "char \<Rightarrow> nat" where
  "code_point c = of_char c"

definition is_upper :: "char \<Rightarrow> bool" where
  "is_upper c = (65 \<le> code_point c \<and> code_point c \<le> 90)"

definition is_lower :: "char \<Rightarrow> bool" where
  "is_lower c = (97 \<le> code_point c \<and> code_point c \<le> 122)"

text \<open>A cased character (\<^verbatim>\<open>_PyUnicode_IsCased\<close>); in ASCII, a letter.\<close>

definition is_alpha :: "char \<Rightarrow> bool" where
  "is_alpha c = (is_upper c \<or> is_lower c)"

text \<open>
  The title-case mapping of a character (\<^verbatim>\<open>_PyUnicode_ToTitleFull\<close>), which in ASCII is
  the upper-case mapping, and the lower-case mapping.
\<close>

definition to_upper :: "char \<Rightarrow> char" where
  "to_upper c = (if is_lower c then char_of (code_point c - 32) else c)"

definition to_lower :: "char \<Rightarrow> char" where
  "to_lower c = (if is_upper c then char_of (code_point c + 32) else c)"


abbreviation newline :: char where
  "newline \<equiv> CHR 0x0A"

subsection \<open>The string methods the script calls\<close>

text \<open>
  \<^verbatim>\<open>s.split(sep)\<close> for a separator of one character: the scan keeps the segment read so
  far in \<open>cur\<close> and closes it at every separator and at the end of the string.
\<close>

fun split_from :: "char \<Rightarrow> string \<Rightarrow> string \<Rightarrow> string list" where
  "split_from sep cur [] = [cur]"
| "split_from sep cur (c # cs) =
     (if c = sep then cur # split_from sep [] cs else split_from sep (cur @ [c]) cs)"

definition str_split :: "char \<Rightarrow> string \<Rightarrow> string list" where
  "str_split sep s = split_from sep [] s"

text \<open>
  \<^verbatim>\<open>s.title()\<close>: one pass that remembers whether the previous character was cased; a
  character after a cased one is lower-cased, any other is title-cased.
\<close>

fun do_title :: "bool \<Rightarrow> string \<Rightarrow> string" where
  "do_title previous_is_cased [] = []"
| "do_title previous_is_cased (c # cs) =
     (if previous_is_cased then to_lower c else to_upper c) # do_title (is_alpha c) cs"

definition str_title :: "string \<Rightarrow> string" where
  "str_title s = do_title False s"

text \<open>\<^verbatim>\<open>sep.join(xs)\<close>.\<close>

fun str_join :: "string \<Rightarrow> string list \<Rightarrow> string" where
  "str_join sep [] = []"
| "str_join sep [x] = x"
| "str_join sep (x # y # ys) = x @ sep @ str_join sep (y # ys)"

subsection \<open>Paths, the listing and the process\<close>

text \<open>
  A path yielded by \<^verbatim>\<open>Path('.').iterdir()\<close>: its string, which is the entry's name, and
  what \<^verbatim>\<open>is_dir()\<close> answers for it.
\<close>

record path =
  str :: string
  is_dir :: bool

text \<open>The only exception of the run: the one \<^verbatim>\<open>iterdir\<close> raises when the listing fails.\<close>

datatype error = OSError

text \<open>
  \<^verbatim>\<open>print(s)\<close> writes \<open>s\<close> and then its own end of line to standard output, which is
  the state the process threads through.
\<close>

definition print :: "string \<Rightarrow> string \<Rightarrow> string" where
  "print s stdout = stdout @ s @ [newline]"

definition folder_name :: "string \<Rightarrow> string" where
  "folder_name d = str_join '' '' (map str_title (str_split CHR ''-'' d))"

definition link_target :: "string \<Rightarrow> string" where
  "link_target d = ''/examples/'' @ d"

text \<open>The formatted string literal of the loop body; it ends with two newlines of its own.\<close>

definition fstring :: "string \<Rightarrow> string" where
  "fstring d = ''## ['' @ folder_name d @ '']('' @ link_target d @ '')'' @ [newline, newline]"

text \<open>
  The comprehension and \<^verbatim>\<open>dirs.sort()\<close>. Paths compare by their parts; a path of the
  listing has one part, its name, so the sort is by \<^const>\<open>str\<close>, in the order of strings.
\<close>

definition dirs :: "path list \<Rightarrow> path list" where
  "dirs entries = sort_key str (filter is_dir entries)"

fun loop :: "path list \<Rightarrow> string \<Rightarrow> string" where
  "loop [] stdout = stdout"
| "loop (dir # rest) stdout = loop rest (print (fstring (str dir)) stdout)"

text \<open>
  The run: the outcome of \<^verbatim>\<open>iterdir\<close> is either the exception or the entries, in the
  order the file system gave them. The result is the uncaught exception, if any, and
  standard output as the process leaves it.
\<close>

definition main :: "error + path list \<Rightarrow> string \<Rightarrow> error option \<times> string" where
  "main iterdir stdout =
     (case iterdir of
        Inl e \<Rightarrow> (Some e, stdout)
      | Inr entries \<Rightarrow> (None, loop (dirs entries) stdout))"

text \<open>The interpreter exits with 1 on an uncaught exception and with 0 otherwise.\<close>

definition exit_status :: "error option \<Rightarrow> nat" where
  "exit_status r = (case r of None \<Rightarrow> 0 | Some e \<Rightarrow> 1)"

text \<open>What one iteration of the loop writes for the directory named \<open>d\<close>.\<close>

definition block :: "string \<Rightarrow> string" where
  "block d = print (fstring d) []"


subsection \<open>Notions of the specification\<close>






section \<open>Properties of the string methods and of the loop\<close>


















lemma loop_stdout: "loop ds out = out @ concat (map (\<lambda>d. block (str d)) ds)"
  by (induction ds arbitrary: out) (simp_all add: block_def print_def)



lemma map_str_dirs: "map str (dirs es) = sort (map str (filter is_dir es))"
  unfolding dirs_def
  by (rule properties_for_sort [symmetric]) (simp_all add: sorted_sort_key)




lemma main_stdout:
  "snd (main (Inr es) out) = out @ concat (map block (map str (dirs es)))"
  by (simp add: main_def loop_stdout comp_def)



lemma sort_mset: "mset xs = mset ys \<Longrightarrow> sort xs = sort ys"
  by (rule properties_for_sort) simp_all

section \<open>The format of a block\<close>

text \<open>
  C1, as the code has it: for every directory printed, the program writes the line
  \<open>## [title](/examples/path)\<close> followed by exactly three newline characters, the two
  of the formatted string and the one \<^verbatim>\<open>print\<close> appends: the heading line and then
  two blank lines, before the next block begins.
\<close>

theorem heading_then_three_newlines:
  "snd (main (Inr entries) out) =
     out @ concat (map (\<lambda>d. ''## ['' @ folder_name d @ ''](/examples/'' @ d @ '')''
                              @ [newline, newline, newline])
                       (map str (dirs entries)))"
  by (simp add: main_stdout block_def print_def fstring_def link_target_def comp_def)

text \<open>
  C1 as worded, with two newline characters after each heading, fails on a listing of
  the two directories \<open>a\<close> and \<open>b\<close>: the output is not the two headings with one
  blank line after each.
\<close>

theorem two_newlines_counterexample:
  "snd (main (Inr [\<lparr>str = ''a'', is_dir = True\<rparr>, \<lparr>str = ''b'', is_dir = True\<rparr>]) [])
   \<noteq> ''## [A](/examples/a)'' @ [newline, newline] @ ''## [B](/examples/b)'' @ [newline, newline]"
  by code_simp

section \<open>The displayed title\<close>






section \<open>Which entries are printed, and in which order\<close>





text \<open>
  C7: the run is a function of the directory's contents. Two listings of the same
  entries, in whatever order the file system yields them, give the same outcome and the
  same bytes on standard output.
\<close>

theorem output_independent_of_listing_order:
  assumes "mset entries = mset entries'"
  shows "main (Inr entries) out = main (Inr entries') out"
proof -
  have "mset (map str (filter is_dir entries)) = mset (map str (filter is_dir entries'))"
    using assms by (metis mset_filter mset_map)
  then have "sort (map str (filter is_dir entries)) = sort (map str (filter is_dir entries'))"
    by (rule sort_mset)
  then have "map str (dirs entries) = map str (dirs entries')"
    by (simp only: map_str_dirs)
  then have "snd (main (Inr entries) out) = snd (main (Inr entries') out)"
    by (simp only: main_stdout)
  moreover have "fst (main (Inr entries) out) = fst (main (Inr entries') out)"
    by (simp add: main_def)
  ultimately show ?thesis by (rule prod_eqI [rotated])
qed

theorem output_independent_of_listing_order_witness:
  "mset [\<lparr>str = ''b'', is_dir = True\<rparr>, \<lparr>str = ''a'', is_dir = True\<rparr>]
     = mset [\<lparr>str = ''a'', is_dir = True\<rparr>, \<lparr>str = ''b'', is_dir = True\<rparr>]
   \<and> main (Inr [\<lparr>str = ''b'', is_dir = True\<rparr>, \<lparr>str = ''a'', is_dir = True\<rparr>]) []
     = main (Inr [\<lparr>str = ''a'', is_dir = True\<rparr>, \<lparr>str = ''b'', is_dir = True\<rparr>]) []"
proof -
  have m: "mset [\<lparr>str = ''b'', is_dir = True\<rparr>, \<lparr>str = ''a'', is_dir = True\<rparr>]
     = mset [\<lparr>str = ''a'', is_dir = True\<rparr>, \<lparr>str = ''b'', is_dir = True\<rparr>]"
    by simp
  from m output_independent_of_listing_order [OF m] show ?thesis by (rule conjI)
qed



section \<open>Failure\<close>


text \<open>
  C9: the listing is complete before the loop writes anything. When it fails, standard
  output is left as it was, the exception is the outcome of the run, and the exit status
  is not 0.
\<close>

theorem listing_failure_writes_nothing:
  "snd (main (Inl e) out) = out \<and> fst (main (Inl e) out) = Some e
   \<and> exit_status (fst (main (Inl e) out)) \<noteq> 0"
  by (simp add: main_def exit_status_def)

end
